theory Spec2Isabelle
  imports Complex_Main "HOL-Library.Word"
begin

section \<open>Element types and type tags\<close>

text \<open>
  The C++ element types that the trait templates of \<^verbatim>\<open>cudf/utilities/traits.hpp\<close> are
  instantiated with. The chrono, fixed-point, dictionary, string, list and struct types are
  the ones the header names (\<^verbatim>\<open>cudf::timestamp_D\<close>, \<^verbatim>\<open>numeric::decimal32\<close>,
  \<^verbatim>\<open>cudf::list_view\<close>, ...); the arithmetic types are the fundamental C++ types that
  \<^verbatim>\<open>std::is_integral\<close> and \<^verbatim>\<open>std::is_floating_point\<close> classify.
\<close>

datatype cpp_type =
    bool_t
  | int8_t | int16_t | int32_t | int64_t
  | uint8_t | uint16_t | uint32_t | uint64_t
  | float_t | double_t
  | timestamp_D | timestamp_s | timestamp_ms | timestamp_us | timestamp_ns
  | duration_D | duration_s | duration_ms | duration_us | duration_ns
  | dictionary32
  | string_view
  | list_view
  | decimal32 | decimal64
  | struct_view

text \<open>
  Modelled from the spec: the enumeration \<^verbatim>\<open>cudf::type_id\<close> (\<^verbatim>\<open>cudf/types.hpp\<close>) is declared
  outside the verified sources. The spec describes it as a closed set of tags (INT32, FLOAT64,
  TIMESTAMP_NS, DECIMAL32, STRING, LIST, STRUCT, DICTIONARY32, BOOL8, ...) in which every
  tag maps to exactly one native storage representation; the tags below are one per element
  type above.
\<close>

datatype type_id =
    INT8 | INT16 | INT32 | INT64
  | UINT8 | UINT16 | UINT32 | UINT64
  | FLOAT32 | FLOAT64
  | BOOL8
  | TIMESTAMP_DAYS | TIMESTAMP_SECONDS | TIMESTAMP_MILLISECONDS
  | TIMESTAMP_MICROSECONDS | TIMESTAMP_NANOSECONDS
  | DURATION_DAYS | DURATION_SECONDS | DURATION_MILLISECONDS
  | DURATION_MICROSECONDS | DURATION_NANOSECONDS
  | DICTIONARY32
  | STRING
  | LIST
  | DECIMAL32 | DECIMAL64
  | STRUCT

type_synonym int32 = "32 word"

text \<open>
  Modelled from the spec: \<^verbatim>\<open>cudf::data_type\<close> (\<^verbatim>\<open>cudf/types.hpp\<close>), the LogicalType of
  the spec: a tag plus, for fixed-point types, a scale.
\<close>

datatype data_type = data_type (dt_id: type_id) (dt_scale: int32)

text \<open>
  Modelled from the spec: the tag-to-type map of \<^verbatim>\<open>cudf/utilities/type_dispatcher.hpp\<close>
  (\<^verbatim>\<open>id_to_type\<close>) and its inverse \<^verbatim>\<open>type_to_id\<close>.
\<close>

fun id_to_type :: "type_id \<Rightarrow> cpp_type" where
  "id_to_type INT8 = int8_t"
| "id_to_type INT16 = int16_t"
| "id_to_type INT32 = int32_t"
| "id_to_type INT64 = int64_t"
| "id_to_type UINT8 = uint8_t"
| "id_to_type UINT16 = uint16_t"
| "id_to_type UINT32 = uint32_t"
| "id_to_type UINT64 = uint64_t"
| "id_to_type FLOAT32 = float_t"
| "id_to_type FLOAT64 = double_t"
| "id_to_type BOOL8 = bool_t"
| "id_to_type TIMESTAMP_DAYS = timestamp_D"
| "id_to_type TIMESTAMP_SECONDS = timestamp_s"
| "id_to_type TIMESTAMP_MILLISECONDS = timestamp_ms"
| "id_to_type TIMESTAMP_MICROSECONDS = timestamp_us"
| "id_to_type TIMESTAMP_NANOSECONDS = timestamp_ns"
| "id_to_type DURATION_DAYS = duration_D"
| "id_to_type DURATION_SECONDS = duration_s"
| "id_to_type DURATION_MILLISECONDS = duration_ms"
| "id_to_type DURATION_MICROSECONDS = duration_us"
| "id_to_type DURATION_NANOSECONDS = duration_ns"
| "id_to_type DICTIONARY32 = dictionary32"
| "id_to_type STRING = string_view"
| "id_to_type LIST = list_view"
| "id_to_type DECIMAL32 = decimal32"
| "id_to_type DECIMAL64 = decimal64"
| "id_to_type STRUCT = struct_view"

fun type_to_id :: "cpp_type \<Rightarrow> type_id" where
  "type_to_id int8_t = INT8"
| "type_to_id int16_t = INT16"
| "type_to_id int32_t = INT32"
| "type_to_id int64_t = INT64"
| "type_to_id uint8_t = UINT8"
| "type_to_id uint16_t = UINT16"
| "type_to_id uint32_t = UINT32"
| "type_to_id uint64_t = UINT64"
| "type_to_id float_t = FLOAT32"
| "type_to_id double_t = FLOAT64"
| "type_to_id bool_t = BOOL8"
| "type_to_id timestamp_D = TIMESTAMP_DAYS"
| "type_to_id timestamp_s = TIMESTAMP_SECONDS"
| "type_to_id timestamp_ms = TIMESTAMP_MILLISECONDS"
| "type_to_id timestamp_us = TIMESTAMP_MICROSECONDS"
| "type_to_id timestamp_ns = TIMESTAMP_NANOSECONDS"
| "type_to_id duration_D = DURATION_DAYS"
| "type_to_id duration_s = DURATION_SECONDS"
| "type_to_id duration_ms = DURATION_MILLISECONDS"
| "type_to_id duration_us = DURATION_MICROSECONDS"
| "type_to_id duration_ns = DURATION_NANOSECONDS"
| "type_to_id dictionary32 = DICTIONARY32"
| "type_to_id string_view = STRING"
| "type_to_id list_view = LIST"
| "type_to_id decimal32 = DECIMAL32"
| "type_to_id decimal64 = DECIMAL64"
| "type_to_id struct_view = STRUCT"

text \<open>
  Modelled from the spec: \<^verbatim>\<open>cudf::type_dispatcher\<close>. Given a runtime tag and an operation
  parameterised by the element type, it invokes the instantiation matching the tag and
  returns what that instantiation returns.
\<close>

definition type_dispatcher :: "data_type \<Rightarrow> (cpp_type \<Rightarrow> 'a) \<Rightarrow> 'a" where
  "type_dispatcher dtype f = f (id_to_type (dt_id dtype))"

section \<open>Type traits\<close>

subsection \<open>The standard library's classification of the fundamental types\<close>

fun std_is_integral :: "cpp_type \<Rightarrow> bool" where
  "std_is_integral bool_t = True"
| "std_is_integral int8_t = True"
| "std_is_integral int16_t = True"
| "std_is_integral int32_t = True"
| "std_is_integral int64_t = True"
| "std_is_integral uint8_t = True"
| "std_is_integral uint16_t = True"
| "std_is_integral uint32_t = True"
| "std_is_integral uint64_t = True"
| "std_is_integral _ = False"

fun std_is_floating_point :: "cpp_type \<Rightarrow> bool" where
  "std_is_floating_point float_t = True"
| "std_is_floating_point double_t = True"
| "std_is_floating_point _ = False"

text \<open>
  Modelled from the spec: the declarations of the element types are outside the verified
  sources. Every one of them is a scalar, or a class of scalars with implicit copy operations,
  hence trivially copyable.
\<close>

fun is_trivially_copyable :: "cpp_type \<Rightarrow> bool" where
  "is_trivially_copyable _ = True"

text \<open>
  Modelled from the spec: \<^verbatim>\<open>cudf::device_storage_type_t\<close>, the storage representation of an
  element type; a fixed-point type is stored as its underlying integer, every other type as
  itself.
\<close>

fun device_storage_type_t :: "cpp_type \<Rightarrow> cpp_type" where
  "device_storage_type_t decimal32 = int32_t"
| "device_storage_type_t decimal64 = int64_t"
| "device_storage_type_t T = T"

text \<open>
  Modelled from the spec: \<^verbatim>\<open>sizeof\<close> of each element type, in bytes. Day-resolution chrono
  types count in 32 bits, the others in 64; a \<^verbatim>\<open>string_view\<close> is a pointer and two sizes;
  \<^verbatim>\<open>list_view\<close> and \<^verbatim>\<open>struct_view\<close> are empty classes; a fixed-point object is its
  integer and a 32-bit scale.
\<close>

fun sizeof :: "cpp_type \<Rightarrow> nat" where
  "sizeof bool_t = 1"
| "sizeof int8_t = 1"
| "sizeof int16_t = 2"
| "sizeof int32_t = 4"
| "sizeof int64_t = 8"
| "sizeof uint8_t = 1"
| "sizeof uint16_t = 2"
| "sizeof uint32_t = 4"
| "sizeof uint64_t = 8"
| "sizeof float_t = 4"
| "sizeof double_t = 8"
| "sizeof timestamp_D = 4"
| "sizeof timestamp_s = 8"
| "sizeof timestamp_ms = 8"
| "sizeof timestamp_us = 8"
| "sizeof timestamp_ns = 8"
| "sizeof duration_D = 4"
| "sizeof duration_s = 8"
| "sizeof duration_ms = 8"
| "sizeof duration_us = 8"
| "sizeof duration_ns = 8"
| "sizeof dictionary32 = 4"
| "sizeof string_view = 16"
| "sizeof list_view = 1"
| "sizeof decimal32 = 8"
| "sizeof decimal64 = 16"
| "sizeof struct_view = 1"

subsection \<open>The trait templates\<close>

text \<open>
  Each template \<^verbatim>\<open>is_X<T>()\<close> of \<^verbatim>\<open>traits.hpp\<close> is the function \<open>is_X_T\<close> on element
  types; each functor \<^verbatim>\<open>is_X_impl\<close> forwards to it; each runtime overload
  \<^verbatim>\<open>is_X(data_type)\<close> dispatches the functor on the tag.
\<close>

definition is_timestamp_t :: "cpp_type \<Rightarrow> bool" where
  "is_timestamp_t T \<longleftrightarrow>
     timestamp_D = T \<or> timestamp_s = T \<or> timestamp_ms = T \<or> timestamp_us = T \<or> timestamp_ns = T"

definition is_duration_t :: "cpp_type \<Rightarrow> bool" where
  "is_duration_t T \<longleftrightarrow>
     duration_D = T \<or> duration_s = T \<or> duration_ms = T \<or> duration_us = T \<or> duration_ns = T"

definition is_numeric_T :: "cpp_type \<Rightarrow> bool" where
  "is_numeric_T T \<longleftrightarrow> std_is_integral T \<or> std_is_floating_point T"

definition is_numeric_impl :: "cpp_type \<Rightarrow> bool" where
  "is_numeric_impl T = is_numeric_T T"

definition is_numeric :: "data_type \<Rightarrow> bool" where
  "is_numeric type = type_dispatcher type is_numeric_impl"

definition is_index_type_T :: "cpp_type \<Rightarrow> bool" where
  "is_index_type_T T \<longleftrightarrow> std_is_integral T \<and> \<not> T = bool_t"

definition is_index_type_impl :: "cpp_type \<Rightarrow> bool" where
  "is_index_type_impl T = is_index_type_T T"

definition is_index_type :: "data_type \<Rightarrow> bool" where
  "is_index_type type = type_dispatcher type is_index_type_impl"

definition is_floating_point_T :: "cpp_type \<Rightarrow> bool" where
  "is_floating_point_T T = std_is_floating_point T"

definition is_floating_point_impl :: "cpp_type \<Rightarrow> bool" where
  "is_floating_point_impl T = is_floating_point_T T"

definition is_floating_point :: "data_type \<Rightarrow> bool" where
  "is_floating_point type = type_dispatcher type is_floating_point_impl"

definition is_boolean_T :: "cpp_type \<Rightarrow> bool" where
  "is_boolean_T T \<longleftrightarrow> T = bool_t"

definition is_boolean_impl :: "cpp_type \<Rightarrow> bool" where
  "is_boolean_impl T = is_boolean_T T"

definition is_boolean :: "data_type \<Rightarrow> bool" where
  "is_boolean type = type_dispatcher type is_boolean_impl"

definition is_timestamp_T :: "cpp_type \<Rightarrow> bool" where
  "is_timestamp_T T = is_timestamp_t T"

definition is_timestamp_impl :: "cpp_type \<Rightarrow> bool" where
  "is_timestamp_impl T = is_timestamp_T T"

definition is_timestamp :: "data_type \<Rightarrow> bool" where
  "is_timestamp type = type_dispatcher type is_timestamp_impl"

definition is_fixed_point_T :: "cpp_type \<Rightarrow> bool" where
  "is_fixed_point_T T \<longleftrightarrow> decimal32 = T \<or> decimal64 = T"

definition is_fixed_point_impl :: "cpp_type \<Rightarrow> bool" where
  "is_fixed_point_impl T = is_fixed_point_T T"

definition is_fixed_point :: "data_type \<Rightarrow> bool" where
  "is_fixed_point type = type_dispatcher type is_fixed_point_impl"

definition is_duration_T :: "cpp_type \<Rightarrow> bool" where
  "is_duration_T T = is_duration_t T"

definition is_duration_impl :: "cpp_type \<Rightarrow> bool" where
  "is_duration_impl T = is_duration_T T"

definition is_duration :: "data_type \<Rightarrow> bool" where
  "is_duration type = type_dispatcher type is_duration_impl"

definition is_chrono_T :: "cpp_type \<Rightarrow> bool" where
  "is_chrono_T T \<longleftrightarrow> is_duration_T T \<or> is_timestamp_T T"

definition is_chrono_impl :: "cpp_type \<Rightarrow> bool" where
  "is_chrono_impl T = is_chrono_T T"

definition is_chrono :: "data_type \<Rightarrow> bool" where
  "is_chrono type = type_dispatcher type is_chrono_impl"

definition is_rep_layout_compatible :: "cpp_type \<Rightarrow> bool" where
  "is_rep_layout_compatible T \<longleftrightarrow> is_numeric_T T \<or> is_chrono_T T \<or> is_boolean_T T"

definition is_dictionary_T :: "cpp_type \<Rightarrow> bool" where
  "is_dictionary_T T \<longleftrightarrow> dictionary32 = T"

definition is_dictionary_impl :: "cpp_type \<Rightarrow> bool" where
  "is_dictionary_impl T = is_dictionary_T T"

definition is_dictionary :: "data_type \<Rightarrow> bool" where
  "is_dictionary type = type_dispatcher type is_dictionary_impl"

definition is_fixed_width_T :: "cpp_type \<Rightarrow> bool" where
  "is_fixed_width_T T \<longleftrightarrow> is_numeric_T T \<or> is_chrono_T T \<or> is_fixed_point_T T"

definition is_fixed_width_impl :: "cpp_type \<Rightarrow> bool" where
  "is_fixed_width_impl T = is_fixed_width_T T"

definition is_fixed_width :: "data_type \<Rightarrow> bool" where
  "is_fixed_width type = type_dispatcher type is_fixed_width_impl"

definition is_compound_T :: "cpp_type \<Rightarrow> bool" where
  "is_compound_T T \<longleftrightarrow> T = string_view \<or> T = dictionary32 \<or> T = list_view \<or> T = struct_view"

definition is_compound_impl :: "cpp_type \<Rightarrow> bool" where
  "is_compound_impl T = is_compound_T T"

definition is_compound :: "data_type \<Rightarrow> bool" where
  "is_compound type = type_dispatcher type is_compound_impl"

definition is_nested_T :: "cpp_type \<Rightarrow> bool" where
  "is_nested_T T \<longleftrightarrow> T = list_view \<or> T = struct_view"

definition is_nested_impl :: "cpp_type \<Rightarrow> bool" where
  "is_nested_impl T = is_nested_T T"

definition is_nested :: "data_type \<Rightarrow> bool" where
  "is_nested type = type_dispatcher type is_nested_impl"

text \<open>
  \<^verbatim>\<open>is_bit_castable_to_impl<FromType>\<close>: the first overload answers for a compound target,
  the second compares the sizes of the two storage representations.
\<close>

definition is_bit_castable_to_impl :: "cpp_type \<Rightarrow> cpp_type \<Rightarrow> bool" where
  "is_bit_castable_to_impl FromType ToType =
     (if is_compound_T ToType then False
      else if \<not> is_trivially_copyable FromType \<or> \<not> is_trivially_copyable ToType then False
      else (let from_size = sizeof (device_storage_type_t FromType);
                to_size = sizeof (device_storage_type_t ToType)
            in from_size = to_size))"

definition is_bit_castable_from_impl :: "cpp_type \<Rightarrow> data_type \<Rightarrow> bool" where
  "is_bit_castable_from_impl FromType to =
     (if is_compound_T FromType then False
      else type_dispatcher to (is_bit_castable_to_impl FromType))"

definition is_bit_castable :: "data_type \<Rightarrow> data_type \<Rightarrow> bool" where
  "is_bit_castable from to = type_dispatcher from (\<lambda>FromType. is_bit_castable_from_impl FromType to)"

text \<open>The size in bytes of the storage representation of a runtime type.\<close>

definition storage_size :: "data_type \<Rightarrow> nat" where
  "storage_size type = type_dispatcher type (\<lambda>T. sizeof (device_storage_type_t T))"

section \<open>Errors\<close>

text \<open>
  \<^verbatim>\<open>CUDF_EXPECTS\<close> and \<^verbatim>\<open>CUDF_FAIL\<close> throw a \<^verbatim>\<open>cudf::logic_error\<close> carrying the
  message; a function that may throw returns \<open>error + 'a\<close>, the error on the left.
\<close>

datatype error = logic_error string

section \<open>Column views\<close>

type_synonym size_type = "32 word"

type_synonym pointer = nat

definition nullptr :: pointer where
  "nullptr = 0"

text \<open>
  Modelled from the spec: the sentinel \<^verbatim>\<open>cudf::UNKNOWN_NULL_COUNT\<close> (\<^verbatim>\<open>cudf/types.hpp\<close>),
  a \<^verbatim>\<open>size_type\<close> that is no count of rows, standing for a null count still to be computed.
\<close>

definition UNKNOWN_NULL_COUNT :: size_type where
  "UNKNOWN_NULL_COUNT = - 1"

text \<open>
  Modelled from the spec: \<^verbatim>\<open>cudf::column_view\<close> (\<^verbatim>\<open>cudf/column/column_view.hpp\<close>), the
  non-owning descriptor \<open>{LogicalType, element count, head, null-bitmask, null count, offset,
  children}\<close>; the fields are in the order of the constructor call in \<^verbatim>\<open>slice\<close>.
\<close>

datatype column_view =
  column_view (cv_type: data_type) (cv_size: size_type) (cv_head: pointer)
    (cv_null_mask: pointer) (cv_null_count: size_type) (cv_offset: size_type)
    (cv_children: "column_view list")

definition num_children :: "column_view \<Rightarrow> nat" where
  "num_children input = length (cv_children input)"

definition child :: "column_view \<Rightarrow> nat \<Rightarrow> column_view" where
  "child input index = cv_children input ! index"

subsection \<open>\<^verbatim>\<open>cudf::detail::slice\<close> (\<^verbatim>\<open>cudf/detail/copy.hpp\<close>)\<close>

text \<open>
  The loop \<^verbatim>\<open>for (index = 0; index < input.num_children(); index++)\<close> that appends
  \<^verbatim>\<open>input.child(index)\<close> to the vector \<^verbatim>\<open>children\<close>.
\<close>

function slice_children :: "column_view \<Rightarrow> nat \<Rightarrow> column_view list \<Rightarrow> column_view list" where
  "slice_children input index children =
     (if index < num_children input
      then slice_children input (index + 1) (children @ [child input index])
      else children)"
  by pat_completeness auto
termination
  by (relation "measure (\<lambda>(input, index, children). num_children input - index)") auto

declare slice_children.simps [simp del]

definition slice :: "column_view \<Rightarrow> size_type \<Rightarrow> size_type \<Rightarrow> error + column_view" where
  "slice input begin end =
     (if \<not> (0 \<le>s begin) then Inl (logic_error ''Invalid beginning of range.'')
      else if \<not> (begin \<le>s end) then Inl (logic_error ''Invalid end of range.'')
      else if \<not> (end \<le>s cv_size input) then Inl (logic_error ''Slice range out of bounds.'')
      else
        (let children = slice_children input 0 []
         in Inr (column_view (cv_type input) (end - begin) (cv_head input) (cv_null_mask input)
                   UNKNOWN_NULL_COUNT (cv_offset input + begin) children)))"

subsection \<open>Reading rows through a view\<close>

text \<open>
  Modelled from the spec: the storage a view points to. A view owns nothing; a row is read
  from the storage at the view's head and through its children at the absolute position
  \<open>offset + local index\<close>, and the null-bitmask, if present, is indexed with the same
  absolute position. What a row of a given type looks like is left to the storage
  (\<open>'v\<close> is the type of row values).
\<close>

record 'v device_memory =
  read_row :: "data_type \<Rightarrow> pointer \<Rightarrow> column_view list \<Rightarrow> int \<Rightarrow> 'v"
  bit_is_set :: "pointer \<Rightarrow> int \<Rightarrow> bool"

definition element :: "'v device_memory \<Rightarrow> column_view \<Rightarrow> size_type \<Rightarrow> 'v" where
  "element mem v element_index =
     read_row mem (cv_type v) (cv_head v) (cv_children v)
       (sint (cv_offset v) + sint element_index)"

definition nullable :: "column_view \<Rightarrow> bool" where
  "nullable v \<longleftrightarrow> cv_null_mask v \<noteq> nullptr"

definition is_valid :: "'v device_memory \<Rightarrow> column_view \<Rightarrow> size_type \<Rightarrow> bool" where
  "is_valid mem v element_index \<longleftrightarrow>
     \<not> nullable v \<or> bit_is_set mem (cv_null_mask v) (sint (cv_offset v) + sint element_index)"

text \<open>
  The invariant of a view in the spec, \<open>0 \<le> offset\<close> and \<open>offset + count\<close> within the
  storage, in the arithmetic of \<^verbatim>\<open>size_type\<close>: the position after the last row is itself a
  \<^verbatim>\<open>size_type\<close>, so that no position of the view overflows.
\<close>

definition view_in_bounds :: "column_view \<Rightarrow> bool" where
  "view_in_bounds v \<longleftrightarrow>
     0 \<le> sint (cv_offset v) \<and> 0 \<le> sint (cv_size v) \<and>
     sint (cv_offset v) + sint (cv_size v) < 2 ^ 31"

section \<open>Scalars\<close>

text \<open>
  Modelled from the spec: the scalar classes of \<^verbatim>\<open>cudf/scalar/scalar.hpp\<close>. A scalar is a
  boxed single value of a LogicalType with a validity flag. The value of a fixed-width
  scalar is an element of its storage type; a string scalar holds a string, a list scalar a
  column of elements, a struct scalar one column per field.
\<close>

datatype element_value =
    boolean bool
  | integer int
  | floating real
  | time_point int
  | time_span int

datatype scalar_data =
    fixed_width_data element_value
  | string_data string
  | list_data column_view
  | struct_data "column_view list"

datatype scalar = scalar (sc_type: data_type) (sc_data: scalar_data) (sc_is_valid: bool)

text \<open>
  The value-initialisation \<^verbatim>\<open>Type{}\<close> of a storage type: \<^verbatim>\<open>false\<close>, the integer or
  floating-point zero, the epoch, the empty duration. The scalar factories evaluate it at
  the storage types of fixed-width element types only.
\<close>

fun value_init :: "cpp_type \<Rightarrow> element_value" where
  "value_init bool_t = boolean False"
| "value_init int8_t = integer 0"
| "value_init int16_t = integer 0"
| "value_init int32_t = integer 0"
| "value_init int64_t = integer 0"
| "value_init uint8_t = integer 0"
| "value_init uint16_t = integer 0"
| "value_init uint32_t = integer 0"
| "value_init uint64_t = integer 0"
| "value_init float_t = floating 0"
| "value_init double_t = floating 0"
| "value_init timestamp_D = time_point 0"
| "value_init timestamp_s = time_point 0"
| "value_init timestamp_ms = time_point 0"
| "value_init timestamp_us = time_point 0"
| "value_init timestamp_ns = time_point 0"
| "value_init duration_D = time_span 0"
| "value_init duration_s = time_span 0"
| "value_init duration_ms = time_span 0"
| "value_init duration_us = time_span 0"
| "value_init duration_ns = time_span 0"

text \<open>
  Modelled from the spec: the constructors of the scalar classes. \<^verbatim>\<open>numeric_scalar<T>\<close>,
  \<^verbatim>\<open>timestamp_scalar<T>\<close> and \<^verbatim>\<open>duration_scalar<T>\<close> take a value and a validity flag and
  have the type \<^verbatim>\<open>data_type(type_to_id<T>())\<close>; \<^verbatim>\<open>fixed_point_scalar<T>\<close> takes a scale
  as well, which becomes the scale of its type.
\<close>

definition fixed_width_scalar :: "cpp_type \<Rightarrow> element_value \<Rightarrow> bool \<Rightarrow> scalar" where
  "fixed_width_scalar T v valid = scalar (data_type (type_to_id T) 0) (fixed_width_data v) valid"

definition fixed_point_scalar :: "cpp_type \<Rightarrow> element_value \<Rightarrow> int32 \<Rightarrow> bool \<Rightarrow> scalar" where
  "fixed_point_scalar T v scale valid =
     scalar (data_type (type_to_id T) scale) (fixed_width_data v) valid"

definition string_scalar :: "string \<Rightarrow> bool \<Rightarrow> scalar" where
  "string_scalar str valid = scalar (data_type STRING 0) (string_data str) valid"

definition list_scalar :: "column_view \<Rightarrow> bool \<Rightarrow> scalar" where
  "list_scalar elements valid = scalar (data_type LIST 0) (list_data elements) valid"

definition struct_scalar :: "column_view list \<Rightarrow> bool \<Rightarrow> scalar" where
  "struct_scalar data valid = scalar (data_type STRUCT 0) (struct_data data) valid"

definition set_valid_async :: "scalar \<Rightarrow> bool \<Rightarrow> scalar" where
  "set_valid_async s valid = scalar (sc_type s) (sc_data s) valid"

subsection \<open>The factories of \<^verbatim>\<open>scalar_factories.cpp\<close>\<close>

text \<open>
  \<^verbatim>\<open>scalar_construction_helper\<close> has three overloads of its call operator, enabled for a
  fixed-width type that is not fixed-point, for a fixed-point type, and for a type that is
  not fixed-width.
\<close>

definition scalar_construction_helper :: "cpp_type \<Rightarrow> error + scalar" where
  "scalar_construction_helper T =
     (if is_fixed_width_T T \<and> \<not> is_fixed_point_T T
      then Inr (fixed_width_scalar T (value_init (device_storage_type_t T)) False)
      else if is_fixed_point_T T
      then Inr (fixed_point_scalar T (value_init (device_storage_type_t T)) 0 False)
      else Inl (logic_error ''Invalid type.''))"

definition make_numeric_scalar :: "data_type \<Rightarrow> error + scalar" where
  "make_numeric_scalar type =
     (if \<not> is_numeric type then Inl (logic_error ''Invalid, non-numeric type.'')
      else type_dispatcher type scalar_construction_helper)"

definition make_timestamp_scalar :: "data_type \<Rightarrow> error + scalar" where
  "make_timestamp_scalar type =
     (if \<not> is_timestamp type then Inl (logic_error ''Invalid, non-timestamp type.'')
      else type_dispatcher type scalar_construction_helper)"

definition make_duration_scalar :: "data_type \<Rightarrow> error + scalar" where
  "make_duration_scalar type =
     (if \<not> is_duration type then Inl (logic_error ''Invalid, non-duration type.'')
      else type_dispatcher type scalar_construction_helper)"

definition make_fixed_width_scalar :: "data_type \<Rightarrow> error + scalar" where
  "make_fixed_width_scalar type =
     (if \<not> is_fixed_width type then Inl (logic_error ''Invalid, non-fixed-width type.'')
      else type_dispatcher type scalar_construction_helper)"

definition make_list_scalar :: "column_view \<Rightarrow> scalar" where
  "make_list_scalar elements = list_scalar elements True"

definition make_struct_scalar :: "column_view list \<Rightarrow> scalar" where
  "make_struct_scalar data = struct_scalar data True"

text \<open>
  \<^verbatim>\<open>default_scalar_functor\<close>: the primary template and its four specialisations, for
  \<^verbatim>\<open>string_view\<close>, \<^verbatim>\<open>dictionary32\<close>, \<^verbatim>\<open>list_view\<close> and \<^verbatim>\<open>struct_view\<close>.
\<close>

definition default_scalar_functor :: "cpp_type \<Rightarrow> error + scalar" where
  "default_scalar_functor T =
     (if T = string_view then Inr (string_scalar [] False)
      else if T = dictionary32 then Inl (logic_error ''dictionary type not supported'')
      else if T = list_view then Inl (logic_error ''list_view type not supported'')
      else if T = struct_view then Inl (logic_error ''struct_view type not supported'')
      else make_fixed_width_scalar (data_type (type_to_id T) 0))"

definition make_default_constructed_scalar :: "data_type \<Rightarrow> error + scalar" where
  "make_default_constructed_scalar type = type_dispatcher type default_scalar_functor"

text \<open>
  Modelled from the spec: \<^verbatim>\<open>cudf::empty_like\<close> (declared in \<^verbatim>\<open>cudf/copying.hpp\<close>), the
  view of a new column of the type of the input with no rows, no storage and the empty
  structure of the input's children.
\<close>

fun empty_like :: "column_view \<Rightarrow> column_view" where
  "empty_like (column_view type n head null_mask null_count off children) =
     column_view type 0 nullptr nullptr 0 0 (map empty_like children)"

text \<open>
  Modelled from the spec: \<^verbatim>\<open>cudf::detail::get_element\<close> (declared in \<^verbatim>\<open>copy.hpp\<close>) extracts
  the value and the null-ness at a row into a scalar of the column's type and fails if the
  index is outside \<open>[0, count)\<close>.
\<close>

definition get_element ::
  "scalar_data device_memory \<Rightarrow> column_view \<Rightarrow> size_type \<Rightarrow> error + scalar" where
  "get_element mem input index =
     (if \<not> (0 \<le>s index \<and> index <s cv_size input) then Inl (logic_error ''Index out of bounds'')
      else Inr (scalar (cv_type input) (element mem input index) (is_valid mem input index)))"

definition make_empty_scalar_like ::
  "scalar_data device_memory \<Rightarrow> column_view \<Rightarrow> error + scalar" where
  "make_empty_scalar_like mem column =
     (case dt_id (cv_type column) of
        LIST \<Rightarrow>
          (let result = make_list_scalar (empty_like column)
           in Inr (set_valid_async result False))
      | STRUCT \<Rightarrow>
          (case get_element mem column 0 of
             Inl err \<Rightarrow> Inl err
           | Inr result \<Rightarrow> Inr (set_valid_async result False))
      | _ \<Rightarrow> make_default_constructed_scalar (cv_type column))"

text \<open>What it is for the value of a scalar to be zero: the value-initialised element.\<close>

fun is_zero :: "scalar_data \<Rightarrow> bool" where
  "is_zero (fixed_width_data (boolean b)) \<longleftrightarrow> \<not> b"
| "is_zero (fixed_width_data (integer i)) \<longleftrightarrow> i = 0"
| "is_zero (fixed_width_data (floating x)) \<longleftrightarrow> x = 0"
| "is_zero (fixed_width_data (time_point t)) \<longleftrightarrow> t = 0"
| "is_zero (fixed_width_data (time_span d)) \<longleftrightarrow> d = 0"
| "is_zero _ \<longleftrightarrow> False"

section \<open>Packing and unpacking a table\<close>

text \<open>
  Modelled from the spec: \<^verbatim>\<open>cudf::pack\<close> is only declared in \<^verbatim>\<open>copy.hpp\<close> and
  \<^verbatim>\<open>cudf::unpack\<close> is defined outside the verified sources; everything in this section follows the
  spec. Storage is a byte-addressed memory. A view of element width \<open>w\<close> reads row \<open>i\<close>
  from the \<open>w\<close> bytes at \<open>head + (offset + i) * w\<close>, and its validity from bit
  \<open>offset + i\<close> of the null-bitmask, if present.
\<close>

type_synonym byte = "8 word"

type_synonym memory = "pointer \<Rightarrow> byte"

definition read_bytes :: "memory \<Rightarrow> pointer \<Rightarrow> nat \<Rightarrow> byte list" where
  "read_bytes mem p n = map (\<lambda>j. mem (p + j)) [0..<n]"

definition rows :: "column_view \<Rightarrow> nat" where
  "rows v = nat (sint (cv_size v))"

definition first_row :: "column_view \<Rightarrow> nat" where
  "first_row v = nat (sint (cv_offset v))"

definition row_bytes :: "memory \<Rightarrow> column_view \<Rightarrow> nat \<Rightarrow> byte list" where
  "row_bytes mem v i =
     (if cv_head v = nullptr then []
      else read_bytes mem (cv_head v + (first_row v + i) * storage_size (cv_type v))
             (storage_size (cv_type v)))"

definition row_valid :: "memory \<Rightarrow> column_view \<Rightarrow> nat \<Rightarrow> bool" where
  "row_valid mem v i \<longleftrightarrow>
     cv_null_mask v = nullptr \<or>
     bit (mem (cv_null_mask v + (first_row v + i) div 8)) ((first_row v + i) mod 8)"

text \<open>
  What a table holds, as seen through its views: for every column its type, its row count,
  its offset, the bytes and the validity of each of its rows, and the same for its children.
  The functions on tables recurse over a list of views, into the children of the first
  view and into the rest of the list.
\<close>

datatype contents =
  contents data_type size_type size_type "(byte list \<times> bool) list" "contents list"

function table_contents :: "memory \<Rightarrow> column_view list \<Rightarrow> contents list" where
  "table_contents mem [] = []"
| "table_contents mem (v # vs) =
     contents (cv_type v) (cv_size v) (cv_offset v)
       (map (\<lambda>i. (row_bytes mem v i, row_valid mem v i)) [0..<rows v])
       (table_contents mem (cv_children v))
     # table_contents mem vs"
  by pat_completeness auto
termination
proof (relation "measure (\<lambda>(mem, vs). size_list size vs)")
  show "wf (measure (\<lambda>(mem, vs). size_list size vs))" by simp
next
  fix mem :: memory and v :: column_view and vs :: "column_view list"
  show "((mem, cv_children v), mem, v # vs) \<in> measure (\<lambda>(mem, vs). size_list size vs)"
    by (cases v) simp
  show "((mem, vs), mem, v # vs) \<in> measure (\<lambda>(mem, vs). size_list size vs)"
    by simp
qed

text \<open>
  Modelled from the spec: \<open>pack\<close> serialises the views into a metadata block and a data
  block of concatenated value and null-mask bytes. For each view, in the order of the
  column tree, the data block holds the bytes of the value storage up to the last row of
  the view, then the bytes of its null-bitmask, then the blocks of its children.
\<close>

definition data_bytes :: "column_view \<Rightarrow> nat" where
  "data_bytes v =
     (if cv_head v = nullptr then 0
      else (first_row v + rows v) * storage_size (cv_type v))"

definition mask_bytes :: "column_view \<Rightarrow> nat" where
  "mask_bytes v =
     (if cv_null_mask v = nullptr then 0 else (first_row v + rows v + 7) div 8)"

function packed_size :: "column_view list \<Rightarrow> nat" where
  "packed_size [] = 0"
| "packed_size (v # vs) =
     data_bytes v + mask_bytes v + packed_size (cv_children v) + packed_size vs"
  by pat_completeness auto
termination
proof (relation "measure (size_list size)")
  show "wf (measure (size_list size :: column_view list \<Rightarrow> nat))" by simp
next
  fix v :: column_view and vs :: "column_view list"
  show "(cv_children v, v # vs) \<in> measure (size_list size)"
    by (cases v) simp
  show "(vs, v # vs) \<in> measure (size_list size)"
    by simp
qed

function pack_data :: "memory \<Rightarrow> column_view list \<Rightarrow> byte list" where
  "pack_data mem [] = []"
| "pack_data mem (v # vs) =
     read_bytes mem (cv_head v) (data_bytes v) @
     read_bytes mem (cv_null_mask v) (mask_bytes v) @
     pack_data mem (cv_children v) @
     pack_data mem vs"
  by pat_completeness auto
termination
proof (relation "measure (\<lambda>(mem, vs). size_list size vs)")
  show "wf (measure (\<lambda>(mem, vs). size_list size vs))" by simp
next
  fix mem :: memory and v :: column_view and vs :: "column_view list"
  show "((mem, cv_children v), mem, v # vs) \<in> measure (\<lambda>(mem, vs). size_list size vs)"
    by (cases v) simp
  show "((mem, vs), mem, v # vs) \<in> measure (\<lambda>(mem, vs). size_list size vs)"
    by simp
qed

text \<open>
  Modelled from the spec: one entry of the metadata per view, in the order of the column
  tree, with the shape and type of the view and the offsets of its value bytes and its
  null-mask bytes relative to the start of the data block (\<open>- 1\<close> for a null pointer).
\<close>

datatype serialized_column =
  serialized_column (ser_type: data_type) (ser_size: size_type) (ser_null_count: size_type)
    (ser_offset: size_type) (data_offset: int) (null_mask_offset: int) (ser_num_children: nat)

function pack_metadata :: "nat \<Rightarrow> column_view list \<Rightarrow> serialized_column list" where
  "pack_metadata start [] = []"
| "pack_metadata start (v # vs) =
     serialized_column (cv_type v) (cv_size v) (cv_null_count v) (cv_offset v)
       (if cv_head v = nullptr then - 1 else int start)
       (if cv_null_mask v = nullptr then - 1 else int (start + data_bytes v))
       (num_children v)
     # pack_metadata (start + data_bytes v + mask_bytes v) (cv_children v)
     @ pack_metadata (start + data_bytes v + mask_bytes v + packed_size (cv_children v)) vs"
  by pat_completeness auto
termination
proof (relation "measure (\<lambda>(start, vs). size_list size vs)")
  show "wf (measure (\<lambda>(start :: nat, vs). size_list size vs))" by simp
next
  fix start :: nat and v :: column_view and vs :: "column_view list"
  show "((start + data_bytes v + mask_bytes v, cv_children v), start, v # vs)
      \<in> measure (\<lambda>(start, vs). size_list size vs)"
    by (cases v) simp
  show "((start + data_bytes v + mask_bytes v + packed_size (cv_children v), vs), start, v # vs)
      \<in> measure (\<lambda>(start, vs). size_list size vs)"
    by simp
qed

text \<open>
  Modelled from the spec: the packed table. The first entry of the metadata is a header
  whose child count is the number of columns of the table.
\<close>

datatype packed_columns =
  packed_columns (metadata: "serialized_column list") (gpu_data: "byte list")

definition header :: "nat \<Rightarrow> serialized_column" where
  "header n = serialized_column (data_type INT8 0) 0 0 0 (- 1) (- 1) n"

definition pack :: "memory \<Rightarrow> column_view list \<Rightarrow> packed_columns" where
  "pack mem input = packed_columns (header (length input) # pack_metadata 0 input) (pack_data mem input)"

text \<open>
  Modelled from the spec: \<open>unpack\<close> reconstructs the views by reading the metadata and
  adding the base address of the supplied data block to every stored relative offset.
  Metadata that ends before the declared children are read, or that goes on after the last
  column, is a failure.
\<close>

definition rebase :: "pointer \<Rightarrow> int \<Rightarrow> pointer" where
  "rebase base rel = (if rel < 0 then nullptr else base + nat rel)"

definition deserialize_column ::
  "pointer \<Rightarrow> serialized_column \<Rightarrow> column_view list \<Rightarrow> column_view" where
  "deserialize_column base e children =
     column_view (ser_type e) (ser_size e) (rebase base (data_offset e))
       (rebase base (null_mask_offset e)) (ser_null_count e) (ser_offset e) children"

function get_columns ::
  "pointer \<Rightarrow> nat \<Rightarrow> serialized_column list \<Rightarrow>
     error + (column_view list \<times> serialized_column list)" where
  "get_columns base 0 es = Inr ([], es)"
| "get_columns base (Suc n) [] = Inl (logic_error ''Truncated metadata.'')"
| "get_columns base (Suc n) (e # es) =
     (case get_columns base (ser_num_children e) es of
        Inl err \<Rightarrow> Inl err
      | Inr (children, rest) \<Rightarrow>
          (case get_columns base n rest of
             Inl err \<Rightarrow> Inl err
           | Inr (cols, rest') \<Rightarrow> Inr (deserialize_column base e children # cols, rest')))"
  by pat_completeness auto
termination
proof -
  have shorter: "length rest \<le> length es"
    if "get_columns_dom (base, n, es)" "get_columns base n es = Inr (cols, rest)"
    for base n es cols rest
    using that
  proof (induction base n es arbitrary: cols rest rule: get_columns.pinduct)
    case (1 base es)
    then show ?case by (simp add: get_columns.psimps)
  next
    case (2 base n)
    then show ?case by (simp add: get_columns.psimps)
  next
    case (3 base n e es)
    from 3(1,4) obtain children r cs where
      a: "get_columns base (ser_num_children e) es = Inr (children, r)"
      and b: "get_columns base n r = Inr (cs, rest)"
      by (auto simp add: get_columns.psimps split: sum.splits prod.splits)
    from 3(2) [OF a] have "length r \<le> length es" .
    moreover from 3(3) [OF a refl b] have "length rest \<le> length r" .
    ultimately show ?case by simp
  qed
  show ?thesis
  proof (relation "inv_image (less_than <*lex*> less_than) (\<lambda>(base, n, es). (length es, n))")
    show "wf (inv_image (less_than <*lex*> less_than)
        (\<lambda>(base :: pointer, n :: nat, es :: serialized_column list). (length es, n)))"
      by (intro wf_inv_image wf_lex_prod wf_less_than)
  next
    fix base n e es
    show "((base, ser_num_children e, es), base, Suc n, e # es)
        \<in> inv_image (less_than <*lex*> less_than) (\<lambda>(base, n, es). (length es, n))"
      by simp
  next
    fix base n e es x2 x y
    assume "get_columns base (ser_num_children e) es = Inr x2" "(x, y) = x2"
      "get_columns_dom (base, ser_num_children e, es)"
    then have "length y \<le> length es"
      using shorter [of base "ser_num_children e" es x y] by simp
    then show "((base, n, y), base, Suc n, e # es)
        \<in> inv_image (less_than <*lex*> less_than) (\<lambda>(base, n, es). (length es, n))"
      by auto
  qed
qed

definition unpack :: "serialized_column list \<Rightarrow> pointer \<Rightarrow> error + column_view list" where
  "unpack meta base =
     (case meta of
        [] \<Rightarrow> Inl (logic_error ''Empty metadata.'')
      | hdr # es \<Rightarrow>
          (case get_columns base (ser_num_children hdr) es of
             Inl err \<Rightarrow> Inl err
           | Inr (cols, rest) \<Rightarrow>
               if rest = [] then Inr cols else Inl (logic_error ''Trailing metadata.'')))"

text \<open>The row count of a table is that of its first column.\<close>

definition num_rows :: "column_view list \<Rightarrow> size_type" where
  "num_rows cols = (case cols of [] \<Rightarrow> 0 | c # _ \<Rightarrow> cv_size c)"

section \<open>Properties of the type traits\<close>

lemmas trait_T_defs =
  is_timestamp_t_def is_duration_t_def is_numeric_T_def is_index_type_T_def
  is_floating_point_T_def is_boolean_T_def is_timestamp_T_def is_fixed_point_T_def
  is_duration_T_def is_chrono_T_def is_dictionary_T_def is_fixed_width_T_def
  is_compound_T_def is_nested_T_def

lemmas trait_defs =
  type_dispatcher_def
  is_numeric_def is_numeric_impl_def is_index_type_def is_index_type_impl_def
  is_floating_point_def is_floating_point_impl_def is_boolean_def is_boolean_impl_def
  is_timestamp_def is_timestamp_impl_def is_fixed_point_def is_fixed_point_impl_def
  is_duration_def is_duration_impl_def is_chrono_def is_chrono_impl_def
  is_dictionary_def is_dictionary_impl_def is_fixed_width_def is_fixed_width_impl_def
  is_compound_def is_compound_impl_def is_nested_def is_nested_impl_def

text \<open>
  Claim C3, as stated, fails: \<^verbatim>\<open>bool\<close> is an integral type of C++, so
  \<^verbatim>\<open>is_numeric<bool>()\<close> holds and BOOL8 is in the numeric family as well as in the
  boolean one.
\<close>

theorem bool8_is_numeric_and_boolean:
  "is_boolean (data_type BOOL8 0) \<and> is_numeric (data_type BOOL8 0)"
  by (simp add: trait_defs trait_T_defs)

text \<open>
  Claim C3, amended: of the nine families numeric, timestamp, duration, fixed-point,
  boolean, dictionary, list, struct and string, every type other than BOOL8 is in exactly
  one, and BOOL8 is in exactly two (numeric and boolean, by the theorem above); so every
  type is in at least one family.
\<close>

theorem trait_families_count:
  "length (filter (\<lambda>p. p)
     [is_numeric T, is_timestamp T, is_duration T, is_fixed_point T, is_boolean T,
      is_dictionary T, dt_id T = LIST, dt_id T = STRUCT, dt_id T = STRING])
   = (if dt_id T = BOOL8 then 2 else 1)"
  by (cases T, cases "dt_id T") (simp_all add: trait_defs trait_T_defs)

theorem trait_families_count_witness:
  "length (filter (\<lambda>p. p)
     [is_numeric (data_type INT32 0), is_timestamp (data_type INT32 0),
      is_duration (data_type INT32 0), is_fixed_point (data_type INT32 0),
      is_boolean (data_type INT32 0), is_dictionary (data_type INT32 0),
      dt_id (data_type INT32 0) = LIST, dt_id (data_type INT32 0) = STRUCT,
      dt_id (data_type INT32 0) = STRING]) = 1 \<and>
   length (filter (\<lambda>p. p)
     [is_numeric (data_type BOOL8 0), is_timestamp (data_type BOOL8 0),
      is_duration (data_type BOOL8 0), is_fixed_point (data_type BOOL8 0),
      is_boolean (data_type BOOL8 0), is_dictionary (data_type BOOL8 0),
      dt_id (data_type BOOL8 0) = LIST, dt_id (data_type BOOL8 0) = STRUCT,
      dt_id (data_type BOOL8 0) = STRING]) = 2"
  using trait_families_count [of "data_type INT32 0"] trait_families_count [of "data_type BOOL8 0"]
  by simp

text \<open>
  Claim C4: \<open>is_chrono\<close> is the disjunction of \<open>is_timestamp\<close> and \<open>is_duration\<close>,
  \<open>is_nested\<close> holds exactly of the list and struct types, and no compound type is
  fixed-width.
\<close>

theorem chrono_nested_compound:
  "(is_chrono T \<longleftrightarrow> is_timestamp T \<or> is_duration T) \<and>
   (is_nested T \<longleftrightarrow> dt_id T = LIST \<or> dt_id T = STRUCT) \<and>
   (is_compound T \<longrightarrow> \<not> is_fixed_width T)"
  by (cases T, cases "dt_id T") (simp_all add: trait_defs trait_T_defs)

theorem chrono_nested_compound_witness:
  "is_compound (data_type STRING 0) \<and> \<not> is_fixed_width (data_type STRING 0) \<and>
   is_chrono (data_type TIMESTAMP_DAYS 0) \<and> is_timestamp (data_type TIMESTAMP_DAYS 0) \<and>
   is_nested (data_type LIST 0)"
  using chrono_nested_compound [of "data_type STRING 0"]
    chrono_nested_compound [of "data_type TIMESTAMP_DAYS 0"]
    chrono_nested_compound [of "data_type LIST 0"]
  by (simp add: trait_defs trait_T_defs)

lemma is_bit_castable_iff:
  "is_bit_castable T U \<longleftrightarrow>
     \<not> is_compound T \<and> \<not> is_compound U \<and> storage_size T = storage_size U"
  by (simp add: is_bit_castable_def is_bit_castable_from_impl_def is_bit_castable_to_impl_def
      storage_size_def is_compound_def is_compound_impl_def type_dispatcher_def)

text \<open>
  Claim C5: every non-compound type is bit-castable to itself, and two types whose storage
  representations differ in byte size are not bit-castable.
\<close>

theorem bit_castable_refl_and_size:
  "(\<not> is_compound T \<longrightarrow> is_bit_castable T T) \<and>
   (storage_size T \<noteq> storage_size U \<longrightarrow> \<not> is_bit_castable T U)"
  by (simp add: is_bit_castable_iff)

theorem bit_castable_refl_and_size_witness:
  "\<not> is_compound (data_type INT32 0) \<and>
   is_bit_castable (data_type INT32 0) (data_type INT32 0) \<and>
   storage_size (data_type INT32 0) \<noteq> storage_size (data_type INT64 0) \<and>
   \<not> is_bit_castable (data_type INT32 0) (data_type INT64 0)"
  using bit_castable_refl_and_size [of "data_type INT32 0" "data_type INT64 0"]
  by (simp add: storage_size_def trait_defs trait_T_defs)

section \<open>Properties of \<open>slice\<close>\<close>

lemma slice_children_drop:
  "index \<le> num_children input \<Longrightarrow>
   slice_children input index children = children @ drop index (cv_children input)"
proof (induction input index children rule: slice_children.induct)
  case (1 input index children)
  show ?case
  proof (cases "index < num_children input")
    case True
    then have "drop index (cv_children input) =
        child input index # drop (index + 1) (cv_children input)"
      by (simp add: child_def num_children_def Cons_nth_drop_Suc)
    with True 1 show ?thesis
      by (subst slice_children.simps) simp
  next
    case False
    with 1 show ?thesis
      by (subst slice_children.simps) (simp add: num_children_def)
  qed
qed

lemma slice_children_all: "slice_children input 0 [] = cv_children input"
  by (simp add: slice_children_drop)

lemma slice_in_range:
  assumes "0 \<le>s b" "b \<le>s e" "e \<le>s cv_size v"
  shows "slice v b e =
     Inr (column_view (cv_type v) (e - b) (cv_head v) (cv_null_mask v)
            UNKNOWN_NULL_COUNT (cv_offset v + b) (cv_children v))"
  using assms by (simp add: slice_def slice_children_all)

lemma sint_add_exact:
  fixes a b :: size_type
  assumes "- (2 ^ 31) \<le> sint a + sint b" "sint a + sint b < 2 ^ 31"
  shows "sint (a + b) = sint a + sint b"
  using assms by (simp add: sint_word_add signed_take_bit_int_eq_self)

lemma sint_diff_exact:
  fixes a b :: size_type
  assumes "- (2 ^ 31) \<le> sint a - sint b" "sint a - sint b < 2 ^ 31"
  shows "sint (a - b) = sint a - sint b"
  using assms by (simp add: sint_word_diff signed_take_bit_int_eq_self)

lemma sint_size_type_bounds:
  fixes a :: size_type
  shows "- (2 ^ 31) \<le> sint a" "sint a < 2 ^ 31"
  using sint_ge [of a] sint_lt [of a] by simp_all

text \<open>
  Claim C1: for a view \<open>v\<close> and \<open>0 \<le> b \<le> e \<le> count\<close>, \<open>slice v b e\<close> returns a view
  of count \<open>e - b\<close> and offset \<open>offset + b\<close> with the type, head, null-bitmask and children
  of \<open>v\<close>. Under the invariant of the view the offset is exact as an integer, not only
  modulo the width of \<^verbatim>\<open>size_type\<close>, and row \<open>i\<close> of the slice is row \<open>b + i\<close> of \<open>v\<close>,
  in value and in validity, whatever the storage holds.
\<close>

theorem slice_view:
  assumes range: "0 \<le>s b" "b \<le>s e" "e \<le>s cv_size v"
  shows "\<exists>s. slice v b e = Inr s \<and>
           cv_size s = e - b \<and> sint (cv_size s) = sint e - sint b \<and>
           cv_offset s = cv_offset v + b \<and>
           cv_type s = cv_type v \<and> cv_head s = cv_head v \<and>
           cv_null_mask s = cv_null_mask v \<and> cv_children s = cv_children v \<and>
           (view_in_bounds v \<longrightarrow>
              sint (cv_offset s) = sint (cv_offset v) + sint b \<and>
              (\<forall>i. 0 \<le>s i \<and> i <s e - b \<longrightarrow>
                 element mem s i = element mem v (b + i) \<and>
                 is_valid mem s i = is_valid mem v (b + i)))"
proof -
  let ?s = "column_view (cv_type v) (e - b) (cv_head v) (cv_null_mask v)
              UNKNOWN_NULL_COUNT (cv_offset v + b) (cv_children v)"
  have eq: "slice v b e = Inr ?s"
    using range by (rule slice_in_range)
  have b0: "0 \<le> sint b" and be: "sint b \<le> sint e" and es: "sint e \<le> sint (cv_size v)"
    using range by (simp_all add: word_sle_eq)
  have size_eq: "sint (e - b) = sint e - sint b"
    using b0 be sint_size_type_bounds [of e] by (intro sint_diff_exact) simp_all
  have offset_eq: "sint (cv_offset v + b) = sint (cv_offset v) + sint b"
    if "view_in_bounds v"
    using that b0 be es by (intro sint_add_exact) (simp_all add: view_in_bounds_def)
  have rows: "element mem ?s i = element mem v (b + i) \<and>
      is_valid mem ?s i = is_valid mem v (b + i)"
    if bounds: "view_in_bounds v" and i: "0 \<le>s i \<and> i <s e - b" for i
  proof -
    have i0: "0 \<le> sint i" and ilt: "sint i < sint e - sint b"
      using i size_eq by (simp_all add: word_sle_eq word_sless_alt)
    have "sint (b + i) = sint b + sint i"
      using b0 i0 ilt sint_size_type_bounds [of e] by (intro sint_add_exact) simp_all
    then have "sint (cv_offset v + b) + sint i = sint (cv_offset v) + sint (b + i)"
      using offset_eq [OF bounds] by simp
    then show ?thesis
      by (simp add: element_def is_valid_def nullable_def)
  qed
  show ?thesis
    using eq size_eq offset_eq rows by simp
qed

theorem slice_view_witness:
  "0 \<le>s (2 :: size_type) \<and> (2 :: size_type) \<le>s 5 \<and>
   5 \<le>s cv_size (column_view (data_type INT32 0) 10 100 0 3 2 []) \<and>
   view_in_bounds (column_view (data_type INT32 0) 10 100 0 3 2 []) \<and>
   (\<exists>s. slice (column_view (data_type INT32 0) 10 100 0 3 2 []) 2 5 = Inr s \<and>
      cv_size s = 3 \<and> cv_offset s = 4 \<and>
      0 \<le>s (1 :: size_type) \<and> (1 :: size_type) <s 5 - 2 \<and>
      element \<lparr>read_row = \<lambda>t h c i. i, bit_is_set = \<lambda>m i. even i\<rparr> s 1 =
        element \<lparr>read_row = \<lambda>t h c i. i, bit_is_set = \<lambda>m i. even i\<rparr>
          (column_view (data_type INT32 0) 10 100 0 3 2 []) 3)"
proof -
  let ?v = "column_view (data_type INT32 0) 10 100 0 3 2 []"
  let ?m = "\<lparr>read_row = \<lambda>t h c i. i, bit_is_set = \<lambda>m i. even i\<rparr> :: int device_memory"
  have h1: "0 \<le>s (2 :: size_type)" and h2: "(2 :: size_type) \<le>s 5"
    and h3: "5 \<le>s cv_size ?v" and h4: "view_in_bounds ?v"
    by (simp_all add: word_sle_eq view_in_bounds_def)
  have i: "0 \<le>s (1 :: size_type) \<and> (1 :: size_type) <s 5 - 2"
    by (simp add: word_sle_eq word_sless_alt)
  from slice_view [OF h1 h2 h3, of ?m] h4 obtain s where
    s: "slice ?v 2 5 = Inr s" "cv_size s = 5 - 2" "cv_offset s = cv_offset ?v + 2"
    and rows: "\<forall>i. 0 \<le>s i \<and> i <s 5 - 2 \<longrightarrow> element ?m s i = element ?m ?v (2 + i) \<and>
              is_valid ?m s i = is_valid ?m ?v (2 + i)"
    by blast
  from rows i have "element ?m s 1 = element ?m ?v (2 + 1)" by blast
  with s h1 h2 h3 h4 i show ?thesis by simp
qed

text \<open>
  Claim C6: \<open>slice\<close> throws exactly when \<open>begin < 0\<close>, \<open>end < begin\<close> or
  \<open>end > count\<close>, and returns a view exactly in the other cases.
\<close>

theorem slice_fails_iff:
  "(isl (slice v b e) \<longleftrightarrow> b <s 0 \<or> e <s b \<or> cv_size v <s e) \<and>
   ((\<exists>s. slice v b e = Inr s) \<longleftrightarrow> 0 \<le>s b \<and> b \<le>s e \<and> e \<le>s cv_size v)"
  by (auto simp add: slice_def Let_def signed.not_le)

text \<open>
  Claim C10: on a valid range the view that \<open>slice\<close> returns carries
  \<open>UNKNOWN_NULL_COUNT\<close>, which is no count of rows, and it is the same view whatever null
  count the input carried.
\<close>

theorem slice_null_count_unknown:
  assumes "0 \<le>s b" "b \<le>s e" "e \<le>s cv_size v"
  shows "\<exists>s. slice v b e = Inr s \<and> cv_null_count s = UNKNOWN_NULL_COUNT \<and>
           \<not> 0 \<le>s cv_null_count s \<and>
           slice (column_view (cv_type v) (cv_size v) (cv_head v) (cv_null_mask v) n
                    (cv_offset v) (cv_children v)) b e = Inr s"
  using assms by (simp add: slice_in_range UNKNOWN_NULL_COUNT_def word_sle_eq)

theorem slice_null_count_unknown_witness:
  "0 \<le>s (2 :: size_type) \<and> (2 :: size_type) \<le>s 5 \<and>
   5 \<le>s cv_size (column_view (data_type INT32 0) 10 100 200 3 2 []) \<and>
   (\<exists>s. slice (column_view (data_type INT32 0) 10 100 200 3 2 []) 2 5 = Inr s \<and>
      cv_null_count s = UNKNOWN_NULL_COUNT \<and>
      slice (column_view (data_type INT32 0) 10 100 200 0 2 []) 2 5 = Inr s)"
proof -
  let ?v = "column_view (data_type INT32 0) 10 100 200 3 2 []"
  have h1: "0 \<le>s (2 :: size_type)" and h2: "(2 :: size_type) \<le>s 5"
    and h3: "5 \<le>s cv_size ?v"
    by (simp_all add: word_sle_eq)
  from slice_null_count_unknown [OF h1 h2 h3, of 0] obtain s where
    "slice ?v 2 5 = Inr s" "cv_null_count s = UNKNOWN_NULL_COUNT"
    "slice (column_view (data_type INT32 0) 10 100 200 0 2 []) 2 5 = Inr s"
    by auto
  with h1 h2 h3 show ?thesis by simp
qed

section \<open>Properties of the scalar factories\<close>

text \<open>
  Claim C7, as stated, fails: the helper constructs a fixed-point scalar with
  \<^verbatim>\<open>numeric::scale_type{0}\<close>, so for a fixed-point type of another scale the scalar is not
  of the type that was asked for.
\<close>

theorem fixed_point_scalar_drops_scale:
  "make_fixed_width_scalar (data_type DECIMAL32 (- 2)) =
     Inr (scalar (data_type DECIMAL32 0) (fixed_width_data (integer 0)) False) \<and>
   data_type DECIMAL32 0 \<noteq> data_type DECIMAL32 (- 2)"
  by (simp add: make_fixed_width_scalar_def scalar_construction_helper_def fixed_point_scalar_def
      trait_defs trait_T_defs)

lemma helper_fixed_width:
  "is_fixed_width_T T \<Longrightarrow>
   \<exists>s. scalar_construction_helper T = Inr s \<and> sc_type s = data_type (type_to_id T) 0 \<and>
       is_zero (sc_data s) \<and> \<not> sc_is_valid s"
  by (cases T) (simp_all add: scalar_construction_helper_def fixed_width_scalar_def
      fixed_point_scalar_def trait_T_defs)

lemma type_to_id_inverse [simp]: "type_to_id (id_to_type i) = i"
  by (cases i) simp_all

lemma dispatch_helper:
  "is_fixed_width t \<Longrightarrow>
   \<exists>s. type_dispatcher t scalar_construction_helper = Inr s \<and>
       sc_type s = data_type (dt_id t) 0 \<and> is_zero (sc_data s) \<and> \<not> sc_is_valid s"
  using helper_fixed_width [of "id_to_type (dt_id t)"]
  by (simp add: type_dispatcher_def is_fixed_width_def is_fixed_width_impl_def)

lemma numeric_fixed_width: "is_numeric t \<Longrightarrow> is_fixed_width t"
  and timestamp_fixed_width: "is_timestamp t \<Longrightarrow> is_fixed_width t"
  and duration_fixed_width: "is_duration t \<Longrightarrow> is_fixed_width t"
  by (simp_all add: trait_defs trait_T_defs)

text \<open>
  Claim C7, amended: each of the four factories throws exactly when the type does not
  satisfy the factory's trait; otherwise it returns a scalar with the tag of the type and
  scale 0 (the type itself when its scale is 0), the zero value and the validity flag
  false.
\<close>

theorem scalar_factories:
  "(if is_numeric t
    then \<exists>s. make_numeric_scalar t = Inr s \<and> sc_type s = data_type (dt_id t) 0 \<and>
           is_zero (sc_data s) \<and> \<not> sc_is_valid s
    else isl (make_numeric_scalar t)) \<and>
   (if is_timestamp t
    then \<exists>s. make_timestamp_scalar t = Inr s \<and> sc_type s = data_type (dt_id t) 0 \<and>
           is_zero (sc_data s) \<and> \<not> sc_is_valid s
    else isl (make_timestamp_scalar t)) \<and>
   (if is_duration t
    then \<exists>s. make_duration_scalar t = Inr s \<and> sc_type s = data_type (dt_id t) 0 \<and>
           is_zero (sc_data s) \<and> \<not> sc_is_valid s
    else isl (make_duration_scalar t)) \<and>
   (if is_fixed_width t
    then \<exists>s. make_fixed_width_scalar t = Inr s \<and> sc_type s = data_type (dt_id t) 0 \<and>
           is_zero (sc_data s) \<and> \<not> sc_is_valid s
    else isl (make_fixed_width_scalar t))"
  using dispatch_helper [of t] numeric_fixed_width [of t] timestamp_fixed_width [of t]
    duration_fixed_width [of t]
  by (simp add: make_numeric_scalar_def make_timestamp_scalar_def make_duration_scalar_def
      make_fixed_width_scalar_def)

theorem scalar_factories_witness:
  "is_numeric (data_type INT32 0) \<and>
   make_numeric_scalar (data_type INT32 0) =
     Inr (scalar (data_type INT32 0) (fixed_width_data (integer 0)) False) \<and>
   \<not> is_numeric (data_type STRING 0) \<and> isl (make_numeric_scalar (data_type STRING 0)) \<and>
   is_timestamp (data_type TIMESTAMP_DAYS 0) \<and>
   make_timestamp_scalar (data_type TIMESTAMP_DAYS 0) =
     Inr (scalar (data_type TIMESTAMP_DAYS 0) (fixed_width_data (time_point 0)) False) \<and>
   \<not> is_duration (data_type TIMESTAMP_DAYS 0) \<and>
   isl (make_duration_scalar (data_type TIMESTAMP_DAYS 0)) \<and>
   is_fixed_width (data_type DECIMAL32 (- 2)) \<and>
   (\<exists>s. make_fixed_width_scalar (data_type DECIMAL32 (- 2)) = Inr s \<and>
      sc_type s = data_type DECIMAL32 0 \<and> is_zero (sc_data s) \<and> \<not> sc_is_valid s)"
  using scalar_factories [of "data_type INT32 0"] scalar_factories [of "data_type STRING 0"]
    scalar_factories [of "data_type TIMESTAMP_DAYS 0"] scalar_factories [of "data_type DECIMAL32 (- 2)"]
  by (simp add: make_numeric_scalar_def make_timestamp_scalar_def scalar_construction_helper_def
      fixed_width_scalar_def trait_defs trait_T_defs)

lemma default_functor_cases:
  "default_scalar_functor T =
     (if T = string_view then Inr (scalar (data_type STRING 0) (string_data []) False)
      else if T = dictionary32 then Inl (logic_error ''dictionary type not supported'')
      else if T = list_view then Inl (logic_error ''list_view type not supported'')
      else if T = struct_view then Inl (logic_error ''struct_view type not supported'')
      else type_dispatcher (data_type (type_to_id T) 0) scalar_construction_helper)"
  by (cases T) (simp_all add: default_scalar_functor_def string_scalar_def
      make_fixed_width_scalar_def trait_defs trait_T_defs)

text \<open>
  Claim C8: \<open>make_default_constructed_scalar\<close> throws exactly for the dictionary, list and
  struct types, and for the string type it returns the invalid scalar of the empty string.
\<close>

theorem default_constructed_scalar:
  "(isl (make_default_constructed_scalar t) \<longleftrightarrow>
      dt_id t = DICTIONARY32 \<or> dt_id t = LIST \<or> dt_id t = STRUCT) \<and>
   (dt_id t = STRING \<longrightarrow>
      make_default_constructed_scalar t =
        Inr (scalar (data_type STRING 0) (string_data []) False))"
  by (cases t, cases "dt_id t")
    (simp_all add: make_default_constructed_scalar_def default_functor_cases
      scalar_construction_helper_def type_dispatcher_def trait_T_defs)

theorem default_constructed_scalar_witness:
  "dt_id (data_type STRING 0) = STRING \<and>
   make_default_constructed_scalar (data_type STRING 0) =
     Inr (scalar (data_type STRING 0) (string_data []) False) \<and>
   isl (make_default_constructed_scalar (data_type LIST 0)) \<and>
   \<not> isl (make_default_constructed_scalar (data_type FLOAT64 0))"
  using default_constructed_scalar [of "data_type STRING 0"] default_constructed_scalar [of "data_type LIST 0"] default_constructed_scalar [of "data_type FLOAT64 0"]
  by simp

text \<open>
  Claim C9, as stated, fails: for a dictionary column \<open>make_empty_scalar_like\<close> defers to
  \<open>make_default_constructed_scalar\<close>, which throws, so no scalar is returned.
\<close>

theorem empty_scalar_like_dictionary_fails:
  "make_empty_scalar_like \<lparr>read_row = \<lambda>t h c i. struct_data c, bit_is_set = \<lambda>m i. True\<rparr>
     (column_view (data_type DICTIONARY32 0) 4 0 0 0 0
        [column_view (data_type INT32 0) 4 100 0 0 0 [],
         column_view (data_type INT64 0) 2 200 0 0 0 []]) =
   Inl (logic_error ''dictionary type not supported'')"
  by (simp add: make_empty_scalar_like_def make_default_constructed_scalar_def
      default_scalar_functor_def type_dispatcher_def)

lemma default_scalar_type:
  assumes "dt_id t \<noteq> DICTIONARY32" "dt_id t \<noteq> LIST" "dt_id t \<noteq> STRUCT"
  shows "\<exists>s. make_default_constructed_scalar t = Inr s \<and> dt_id (sc_type s) = dt_id t \<and>
           \<not> sc_is_valid s"
  using assms
  by (cases t, cases "dt_id t")
    (simp_all add: make_default_constructed_scalar_def default_functor_cases
      scalar_construction_helper_def type_dispatcher_def trait_T_defs
      fixed_width_scalar_def fixed_point_scalar_def)

text \<open>
  Claim C9, amended: for a LIST column the result is the invalid list scalar over
  \<open>empty_like\<close> of the column; for a STRUCT column with at least one row it is the
  element of row 0 marked invalid, and without rows the call throws; for every other type
  the result is that of \<open>make_default_constructed_scalar\<close> on the column's type, which for
  a dictionary column is an error. Whenever the column is not a dictionary column (and not
  an empty STRUCT column) the call returns an invalid scalar with the tag of the column's
  type.
\<close>

theorem empty_scalar_like:
  "(dt_id (cv_type c) = LIST \<longrightarrow>
      make_empty_scalar_like mem c =
        Inr (scalar (data_type LIST 0) (list_data (empty_like c)) False)) \<and>
   (dt_id (cv_type c) = STRUCT \<longrightarrow>
      (if 0 <s cv_size c
       then make_empty_scalar_like mem c = Inr (scalar (cv_type c) (element mem c 0) False)
       else isl (make_empty_scalar_like mem c))) \<and>
   (dt_id (cv_type c) \<noteq> LIST \<and> dt_id (cv_type c) \<noteq> STRUCT \<longrightarrow>
      make_empty_scalar_like mem c = make_default_constructed_scalar (cv_type c)) \<and>
   (dt_id (cv_type c) = DICTIONARY32 \<longrightarrow> isl (make_empty_scalar_like mem c)) \<and>
   (dt_id (cv_type c) \<noteq> DICTIONARY32 \<and> (dt_id (cv_type c) = STRUCT \<longrightarrow> 0 <s cv_size c) \<longrightarrow>
      (\<exists>s. make_empty_scalar_like mem c = Inr s \<and>
         dt_id (sc_type s) = dt_id (cv_type c) \<and> \<not> sc_is_valid s))"
proof -
  have list: "make_empty_scalar_like mem c =
      Inr (scalar (data_type LIST 0) (list_data (empty_like c)) False)"
    if "dt_id (cv_type c) = LIST"
    using that
    by (simp add: make_empty_scalar_like_def make_list_scalar_def list_scalar_def
        set_valid_async_def)
  have struct: "make_empty_scalar_like mem c = Inr (scalar (cv_type c) (element mem c 0) False)"
    if "dt_id (cv_type c) = STRUCT" "0 <s cv_size c"
    using that
    by (simp add: make_empty_scalar_like_def get_element_def set_valid_async_def)
  have struct_empty: "isl (make_empty_scalar_like mem c)"
    if "dt_id (cv_type c) = STRUCT" "\<not> 0 <s cv_size c"
    using that by (simp add: make_empty_scalar_like_def get_element_def)
  have other: "make_empty_scalar_like mem c = make_default_constructed_scalar (cv_type c)"
    if "dt_id (cv_type c) \<noteq> LIST" "dt_id (cv_type c) \<noteq> STRUCT"
    using that by (cases "dt_id (cv_type c)") (simp_all add: make_empty_scalar_like_def)
  have dict: "isl (make_empty_scalar_like mem c)" if "dt_id (cv_type c) = DICTIONARY32"
    using that
    by (simp add: make_empty_scalar_like_def make_default_constructed_scalar_def
        default_scalar_functor_def type_dispatcher_def)
  have good: "\<exists>s. make_empty_scalar_like mem c = Inr s \<and>
         dt_id (sc_type s) = dt_id (cv_type c) \<and> \<not> sc_is_valid s"
    if d: "dt_id (cv_type c) \<noteq> DICTIONARY32"
      and s: "dt_id (cv_type c) = STRUCT \<longrightarrow> 0 <s cv_size c"
  proof (cases "dt_id (cv_type c) = LIST \<or> dt_id (cv_type c) = STRUCT")
    case True
    then show ?thesis using list struct s by auto
  next
    case False
    then show ?thesis
      using other default_scalar_type [of "cv_type c"] d by simp
  qed
  show ?thesis
    using list struct struct_empty other dict good by simp
qed

theorem empty_scalar_like_witness:
  "dt_id (cv_type (column_view (data_type LIST 0) 4 0 0 0 0
        [column_view (data_type INT32 0) 5 100 0 0 0 []])) = LIST \<and>
   make_empty_scalar_like \<lparr>read_row = \<lambda>t h c i. struct_data c, bit_is_set = \<lambda>m i. True\<rparr>
     (column_view (data_type LIST 0) 4 0 0 0 0 [column_view (data_type INT32 0) 5 100 0 0 0 []]) =
     Inr (scalar (data_type LIST 0)
       (list_data (column_view (data_type LIST 0) 0 0 0 0 0
          [column_view (data_type INT32 0) 0 0 0 0 0 []])) False) \<and>
   dt_id (cv_type (column_view (data_type STRUCT 0) 4 0 0 0 1
        [column_view (data_type INT32 0) 5 100 0 0 0 []])) = STRUCT \<and>
   0 <s cv_size (column_view (data_type STRUCT 0) 4 0 0 0 1
        [column_view (data_type INT32 0) 5 100 0 0 0 []]) \<and>
   make_empty_scalar_like \<lparr>read_row = \<lambda>t h c i. struct_data c, bit_is_set = \<lambda>m i. True\<rparr>
     (column_view (data_type STRUCT 0) 4 0 0 0 1 [column_view (data_type INT32 0) 5 100 0 0 0 []]) =
     Inr (scalar (data_type STRUCT 0)
       (struct_data [column_view (data_type INT32 0) 5 100 0 0 0 []]) False) \<and>
   dt_id (cv_type (column_view (data_type DICTIONARY32 0) 4 0 0 0 0 [])) = DICTIONARY32 \<and>
   isl (make_empty_scalar_like \<lparr>read_row = \<lambda>t h c i. struct_data c, bit_is_set = \<lambda>m i. True\<rparr>
     (column_view (data_type DICTIONARY32 0) 4 0 0 0 0 [])) \<and>
   dt_id (cv_type (column_view (data_type INT16 0) 4 100 0 0 0 [])) \<noteq> LIST \<and>
   dt_id (cv_type (column_view (data_type INT16 0) 4 100 0 0 0 [])) \<noteq> STRUCT \<and>
   dt_id (cv_type (column_view (data_type INT16 0) 4 100 0 0 0 [])) \<noteq> DICTIONARY32 \<and>
   make_empty_scalar_like \<lparr>read_row = \<lambda>t h c i. struct_data c, bit_is_set = \<lambda>m i. True\<rparr>
     (column_view (data_type INT16 0) 4 100 0 0 0 []) =
     make_default_constructed_scalar (data_type INT16 0) \<and>
   (\<exists>s. make_empty_scalar_like \<lparr>read_row = \<lambda>t h c i. struct_data c, bit_is_set = \<lambda>m i. True\<rparr>
     (column_view (data_type INT16 0) 4 100 0 0 0 []) = Inr s \<and>
     dt_id (sc_type s) = INT16 \<and> \<not> sc_is_valid s)"
proof -
  let ?m = "\<lparr>read_row = \<lambda>t h c i. struct_data c, bit_is_set = \<lambda>m i. True\<rparr>
    :: scalar_data device_memory"
  have pos: "0 <s (4 :: size_type)"
    by (simp add: word_sless_alt)
  show ?thesis
    using
      empty_scalar_like [of "column_view (data_type LIST 0) 4 0 0 0 0 [column_view (data_type INT32 0) 5 100 0 0 0 []]" ?m]
      empty_scalar_like [of "column_view (data_type STRUCT 0) 4 0 0 0 1 [column_view (data_type INT32 0) 5 100 0 0 0 []]" ?m]
      empty_scalar_like [of "column_view (data_type DICTIONARY32 0) 4 0 0 0 0 []" ?m]
      empty_scalar_like [of "column_view (data_type INT16 0) 4 100 0 0 0 []" ?m]
      pos
    by (simp add: element_def nullptr_def make_default_constructed_scalar_def
        default_scalar_functor_def make_fixed_width_scalar_def scalar_construction_helper_def
        fixed_width_scalar_def trait_defs trait_T_defs)
qed

section \<open>Properties of packing and unpacking\<close>

lemma length_read_bytes [simp]: "length (read_bytes mem p n) = n"
  by (simp add: read_bytes_def)

lemma read_bytes_eq_iff:
  "read_bytes mem p n = read_bytes mem' p' n \<longleftrightarrow> (\<forall>j<n. mem (p + j) = mem' (p' + j))"
  by (simp add: read_bytes_def list_eq_iff_nth_eq)

lemma read_bytes_add:
  "read_bytes mem p (a + b) = read_bytes mem p a @ read_bytes mem (p + a) b"
proof -
  have "map (\<lambda>j. mem (p + j)) [a..<a + b] = map (\<lambda>j. mem (p + a + j)) [0..<b]"
    by (simp add: list_eq_iff_nth_eq add.assoc)
  moreover have "[0..<a + b] = [0..<a] @ [a..<a + b]"
    by (rule upt_add_eq_append) simp
  ultimately show ?thesis
    by (simp add: read_bytes_def)
qed

lemma read_bytes_window:
  assumes "read_bytes mem' p' n = read_bytes mem p n" "k + w \<le> n"
  shows "read_bytes mem' (p' + k) w = read_bytes mem (p + k) w"
  using assms by (simp add: read_bytes_eq_iff add.assoc)

lemma length_pack_data [simp]: "length (pack_data mem vs) = packed_size vs"
  by (induction vs rule: packed_size.induct) simp_all

lemma row_window:
  fixes f i r w j :: nat
  assumes "i < r"
  shows "(f + i) * w + w \<le> (f + r) * w"
proof -
  have "(f + i) * w + w = (f + i + 1) * w" by simp
  also have "\<dots> \<le> (f + r) * w"
    using assms by (intro mult_le_mono1) simp
  finally show ?thesis .
qed

lemma rebase_relative: "rebase base (int k) = base + k"
  and rebase_null: "rebase base (- 1) = nullptr"
  and rebase_not_null: "0 < base \<Longrightarrow> base + k \<noteq> nullptr"
  by (simp_all add: rebase_def nullptr_def)

lemma mask_window:
  fixes f i r :: nat
  assumes "i < r"
  shows "(f + i) div 8 + 1 \<le> (f + r + 7) div 8"
proof -
  have "(f + i) div 8 + 1 = (f + i + 8) div 8" by simp
  also have "\<dots> \<le> (f + r + 7) div 8"
    using assms by (intro div_le_mono) simp
  finally show ?thesis .
qed

lemma deserialized_rows:
  assumes base: "0 < base"
    and data: "read_bytes mem' (base + start) (data_bytes v) =
      read_bytes mem (cv_head v) (data_bytes v)"
    and mask: "read_bytes mem' (base + (start + data_bytes v)) (mask_bytes v) =
      read_bytes mem (cv_null_mask v) (mask_bytes v)"
    and v': "v' = deserialize_column base
      (serialized_column (cv_type v) (cv_size v) (cv_null_count v) (cv_offset v)
         (if cv_head v = nullptr then - 1 else int start)
         (if cv_null_mask v = nullptr then - 1 else int (start + data_bytes v))
         (num_children v)) children"
    and i: "i < rows v"
  shows "row_bytes mem' v' i = row_bytes mem v i" "row_valid mem' v' i = row_valid mem v i"
proof -
  show "row_bytes mem' v' i = row_bytes mem v i"
  proof (cases "cv_head v = nullptr")
    case True
    then show ?thesis
      by (simp add: v' row_bytes_def deserialize_column_def rebase_null)
  next
    case False
    let ?w = "storage_size (cv_type v)"
    have "(first_row v + i) * ?w + ?w \<le> data_bytes v"
      using False i by (simp add: data_bytes_def row_window)
    with data have "read_bytes mem' (base + start + (first_row v + i) * ?w) ?w =
        read_bytes mem (cv_head v + (first_row v + i) * ?w) ?w"
      by (rule read_bytes_window)
    with False base show ?thesis
      by (simp add: v' row_bytes_def deserialize_column_def rebase_relative rebase_not_null
          first_row_def)
  qed
  show "row_valid mem' v' i = row_valid mem v i"
  proof (cases "cv_null_mask v = nullptr")
    case True
    then show ?thesis
      by (simp add: v' row_valid_def deserialize_column_def rebase_null)
  next
    case False
    have "(first_row v + i) div 8 + 1 \<le> mask_bytes v"
      using False i by (simp add: mask_bytes_def mask_window)
    with mask have "read_bytes mem' (base + (start + data_bytes v) + (first_row v + i) div 8) 1 =
        read_bytes mem (cv_null_mask v + (first_row v + i) div 8) 1"
      by (rule read_bytes_window)
    then have "mem' (base + (start + data_bytes v) + (first_row v + i) div 8) =
        mem (cv_null_mask v + (first_row v + i) div 8)"
      by (simp add: read_bytes_def)
    with False base show ?thesis
      by (simp add: v' row_valid_def deserialize_column_def rebase_relative rebase_not_null
          first_row_def del: of_nat_add)
  qed
qed

lemma unpack_pack_columns:
  assumes "0 < base"
    and "read_bytes mem' (base + start) (packed_size vs) = pack_data mem vs"
  shows "\<exists>cols. get_columns base (length vs) (pack_metadata start vs @ rest) = Inr (cols, rest) \<and>
           table_contents mem' cols = table_contents mem vs \<and>
           map cv_type cols = map cv_type vs \<and> map cv_size cols = map cv_size vs"
  using assms
proof (induction start vs arbitrary: rest rule: pack_metadata.induct)
  case (1 start)
  then show ?case by simp
next
  case (2 start v vs)
  let ?d = "data_bytes v" and ?m = "mask_bytes v" and ?c = "packed_size (cv_children v)"
  let ?e = "serialized_column (cv_type v) (cv_size v) (cv_null_count v) (cv_offset v)
         (if cv_head v = nullptr then - 1 else int start)
         (if cv_null_mask v = nullptr then - 1 else int (start + data_bytes v))
         (num_children v)"
  have split: "read_bytes mem' (base + start) (?d + (?m + (?c + packed_size vs))) =
      read_bytes mem (cv_head v) ?d @ read_bytes mem (cv_null_mask v) ?m @
      pack_data mem (cv_children v) @ pack_data mem vs"
    using 2(4) by (simp add: add.assoc)
  have data: "read_bytes mem' (base + start) ?d = read_bytes mem (cv_head v) ?d"
    and mask: "read_bytes mem' (base + (start + ?d)) ?m = read_bytes mem (cv_null_mask v) ?m"
    and kids: "read_bytes mem' (base + (start + ?d + ?m)) ?c = pack_data mem (cv_children v)"
    and sibs: "read_bytes mem' (base + (start + ?d + ?m + ?c)) (packed_size vs) = pack_data mem vs"
    using split by (simp_all add: read_bytes_add add.assoc)
  from 2(1) [OF 2(3) kids, of "pack_metadata (start + ?d + ?m + ?c) vs @ rest"]
  obtain children where
    c1: "get_columns base (length (cv_children v))
           (pack_metadata (start + ?d + ?m) (cv_children v) @
            pack_metadata (start + ?d + ?m + ?c) vs @ rest) =
         Inr (children, pack_metadata (start + ?d + ?m + ?c) vs @ rest)"
    and c2: "table_contents mem' children = table_contents mem (cv_children v)"
    by blast
  from 2(2) [OF 2(3) sibs, of rest]
  obtain cols where
    s1: "get_columns base (length vs) (pack_metadata (start + ?d + ?m + ?c) vs @ rest) =
         Inr (cols, rest)"
    and s2: "table_contents mem' cols = table_contents mem vs"
    and s3: "map cv_type cols = map cv_type vs" "map cv_size cols = map cv_size vs"
    by blast
  let ?v' = "deserialize_column base ?e children"
  have get: "get_columns base (length (v # vs)) (pack_metadata start (v # vs) @ rest) =
      Inr (?v' # cols, rest)"
    using c1 s1 by (simp add: num_children_def)
  have rows: "row_bytes mem' ?v' i = row_bytes mem v i \<and> row_valid mem' ?v' i = row_valid mem v i"
    if "i < rows v" for i
    using deserialized_rows [OF 2(3) data mask refl that] by simp
  have fields: "cv_type ?v' = cv_type v" "cv_size ?v' = cv_size v" "cv_offset ?v' = cv_offset v"
    "cv_children ?v' = children"
    by (simp_all add: deserialize_column_def)
  have "table_contents mem' (?v' # cols) = table_contents mem (v # vs)"
    using rows c2 s2 by (simp add: fields rows_def)
  with get s3 fields show ?case
    by (intro exI [of _ "?v' # cols"]) simp
qed

text \<open>
  Claim C2: when the data block of \<open>pack mem input\<close> lies at a (non-null) address
  \<open>base\<close> of a memory \<open>mem'\<close>, unpacking the metadata against \<open>base\<close> succeeds and
  yields a table with the row count of the input, the type of each of its columns, and, row
  by row through all children, the value bytes and the validity that the input has in
  \<open>mem\<close>.
\<close>

theorem unpack_pack:
  assumes "0 < base"
    and "read_bytes mem' base (length (gpu_data (pack mem input))) = gpu_data (pack mem input)"
  shows "\<exists>output. unpack (metadata (pack mem input)) base = Inr output \<and>
           num_rows output = num_rows input \<and>
           map cv_type output = map cv_type input \<and>
           table_contents mem' output = table_contents mem input"
proof -
  have "read_bytes mem' (base + 0) (packed_size input) = pack_data mem input"
    using assms(2) by (simp add: pack_def)
  from unpack_pack_columns [OF assms(1) this, of "[]"]
  obtain cols where
    cols: "get_columns base (length input) (pack_metadata 0 input) = Inr (cols, [])"
      "table_contents mem' cols = table_contents mem input"
      "map cv_type cols = map cv_type input" "map cv_size cols = map cv_size input"
    by auto
  have "num_rows cols = num_rows input"
    using cols(4) by (cases cols; cases input) (simp_all add: num_rows_def)
  with cols show ?thesis
    by (simp add: unpack_def pack_def header_def)
qed

theorem unpack_pack_witness:
  "0 < (1000 :: pointer) \<and>
   read_bytes (\<lambda>a. if a = 1003 then 200 else word_of_nat (a - 900)) 1000
     (length (gpu_data (pack word_of_nat
        [column_view (data_type INT8 0) 2 100 200 0 1 []]))) =
     gpu_data (pack word_of_nat [column_view (data_type INT8 0) 2 100 200 0 1 []]) \<and>
   (\<exists>output.
      unpack (metadata (pack word_of_nat [column_view (data_type INT8 0) 2 100 200 0 1 []]))
        1000 = Inr output \<and>
      num_rows output = 2 \<and>
      map cv_type output = [data_type INT8 0] \<and>
      table_contents (\<lambda>a. if a = 1003 then 200 else word_of_nat (a - 900)) output =
        table_contents word_of_nat [column_view (data_type INT8 0) 2 100 200 0 1 []])"
proof -
  let ?t = "[column_view (data_type INT8 0) 2 100 200 0 1 []]"
  let ?m' = "(\<lambda>a. if a = 1003 then 200 else word_of_nat (a - 900)) :: memory"
  have base: "0 < (1000 :: pointer)" by simp
  have block: "read_bytes ?m' 1000 (length (gpu_data (pack word_of_nat ?t))) =
      gpu_data (pack word_of_nat ?t)"
    by code_simp
  from unpack_pack [OF base block] base block show ?thesis
    by (simp add: num_rows_def)
qed

end
